theory Spec2Isabelle
  imports Main "HOL-Library.Sublist"
begin

section \<open>Errors and formatting\<close>

text \<open>
  A Go \<^verbatim>\<open>error\<close> value is represented by the text its \<^verbatim>\<open>Error()\<close> method gives.
  A function returning \<^verbatim>\<open>error\<close> returns \<open>error option\<close> (\<open>None\<close> is \<^verbatim>\<open>nil\<close>);
  a function returning \<^verbatim>\<open>(T, error)\<close> returns \<open>error + T\<close>. A Go string or byte slice is
  a \<open>string\<close>, a list of 8-bit characters. The \<^verbatim>\<open>int\<close> values of the source are
  identifiers compared for equality and image bounds subtracted once; they are of type
  \<open>int\<close>.
\<close>

datatype error = Error string

fun Error_text :: "error \<Rightarrow> string" where
  "Error_text (Error m) = m"

datatype fmt_arg = StrArg string | IntArg int | ErrArg error

fun nat_digits :: "nat \<Rightarrow> string" where
  "nat_digits n =
     (if n < 10 then [''0123456789'' ! n]
      else nat_digits (n div 10) @ [''0123456789'' ! (n mod 10)])"

declare nat_digits.simps [simp del]

definition Itoa :: "int \<Rightarrow> string" where
  "Itoa i = (if i < 0 then CHR ''-'' # nat_digits (nat (- i)) else nat_digits (nat i))"

fun fmt_show :: "fmt_arg \<Rightarrow> string" where
  "fmt_show (StrArg s) = s"
| "fmt_show (IntArg i) = Itoa i"
| "fmt_show (ErrArg e) = Error_text e"

text \<open>
  \<^verbatim>\<open>fmt.Sprintf\<close> for the verbs the source uses (\<^verbatim>\<open>%s\<close>, \<^verbatim>\<open>%d\<close>, \<^verbatim>\<open>%v\<close>), each applied
  to an operand of the matching type, as at every call in the source.
\<close>

fun Sprintf :: "string \<Rightarrow> fmt_arg list \<Rightarrow> string" where
  "Sprintf [] args = []"
| "Sprintf [c] args = [c]"
| "Sprintf (c # d # rest) args =
     (if c = CHR ''%'' \<and> (d = CHR ''s'' \<or> d = CHR ''d'' \<or> d = CHR ''v'') then
        (case args of
           [] \<Rightarrow> ''%!'' @ [d] @ ''(MISSING)'' @ Sprintf rest []
         | a # as \<Rightarrow> fmt_show a @ Sprintf rest as)
      else c # Sprintf (d # rest) args)"

definition Errorf :: "string \<Rightarrow> error \<Rightarrow> error" where
  "Errorf errorFormat err = Error (Sprintf errorFormat [ErrArg err])"

section \<open>Review results\<close>

record ReviewType =
  Id :: int
  Name :: string
  Description :: string

record SubCheckResult =
  SubCheck :: string
  Status :: string
  Passed :: bool
  Message :: string
  HasWarnings :: bool

record BinaryReviewResult =
  Id :: int
  BinaryId :: int
  Type :: ReviewType
  Message :: string
  CreationDate :: string
  SubCheckResults :: "SubCheckResult list"

definition HasPassed :: "BinaryReviewResult \<Rightarrow> bool" where
  "HasPassed review =
     (ReviewType.Id (Type review) = 3 \<or>
      ReviewType.Name (Type review) = ''automaticcodereviewsucceeded'')"

text \<open>The \<^verbatim>\<open>range\<close> loop of \<^verbatim>\<open>HasWarnings\<close>, returning at the first flagged sub-check.\<close>

fun HasWarnings_loop :: "SubCheckResult list \<Rightarrow> bool" where
  "HasWarnings_loop [] = False"
| "HasWarnings_loop (result # rest) =
     (if SubCheckResult.HasWarnings result then True else HasWarnings_loop rest)"

definition HasWarnings :: "BinaryReviewResult \<Rightarrow> bool" where
  "HasWarnings review = HasWarnings_loop (SubCheckResults review)"

definition IsPending :: "BinaryReviewResult \<Rightarrow> bool" where
  "IsPending review = (ReviewType.Id (Type review) = 4)"

text \<open>
  The loop of \<^verbatim>\<open>GetSummary\<close>, with the accumulated \<^verbatim>\<open>message\<close> as argument. The
  sanitizer of the empty \<^verbatim>\<open>bluemonday\<close> policy is a library function and a parameter here.
\<close>

fun GetSummary_loop :: "(string \<Rightarrow> string) \<Rightarrow> string \<Rightarrow> SubCheckResult list \<Rightarrow> string" where
  "GetSummary_loop Sanitize message [] = message"
| "GetSummary_loop Sanitize message (result # rest) =
     (if Passed result \<and> \<not> SubCheckResult.HasWarnings result then
        GetSummary_loop Sanitize message rest
      else
        GetSummary_loop Sanitize
          ((message @ Sprintf ''=== %s ===\<newline>'' [StrArg (SubCheck result)])
             @ Sprintf ''%s\<newline>\<newline>'' [StrArg (Sanitize (SubCheckResult.Message result))])
          rest)"

definition GetSummary :: "(string \<Rightarrow> string) \<Rightarrow> BinaryReviewResult \<Rightarrow> string" where
  "GetSummary Sanitize review = GetSummary_loop Sanitize '''' (SubCheckResults review)"

text \<open>
  The summary as the specification words it: the entry of one sub-check, and the
  sub-checks that contribute one.
\<close>

definition spec_summary_entry :: "(string \<Rightarrow> string) \<Rightarrow> SubCheckResult \<Rightarrow> string" where
  "spec_summary_entry Sanitize result =
     ''=== '' @ SubCheck result @ '' ===\<newline>''
       @ Sanitize (SubCheckResult.Message result) @ ''\<newline>\<newline>''"

definition spec_reported :: "SubCheckResult \<Rightarrow> bool" where
  "spec_reported result = (\<not> Passed result \<or> SubCheckResult.HasWarnings result)"

section \<open>Version filter\<close>

text \<open>
  Modelled from the spec: the declaration of \<^verbatim>\<open>SoftwareVersion\<close> is in another file of
  the package; the specification gives it an id, a name and the \<^verbatim>\<open>selectable\<close> flag.
  The functions below are stated over the record scheme, so that further fields do not
  matter.
\<close>

record SoftwareVersion =
  Id :: int
  Name :: string
  Selectable :: bool

text \<open>
  \<^verbatim>\<open>version.NewVersion\<close> and \<^verbatim>\<open>Constraints.Check\<close> belong to the version library and
  are parameters: \<open>NewVersion\<close> parses a name into a version or fails, \<open>Check\<close> decides
  whether a version satisfies a constraint. The constraint is the value the pointer
  argument refers to.
\<close>

fun FilterOnVersion_loop ::
  "(string \<Rightarrow> error + 'v) \<Rightarrow> ('c \<Rightarrow> 'v \<Rightarrow> bool) \<Rightarrow> 'c \<Rightarrow>
   'z SoftwareVersion_scheme list \<Rightarrow> 'z SoftwareVersion_scheme list \<Rightarrow>
   'z SoftwareVersion_scheme list" where
  "FilterOnVersion_loop NewVersion Check constriant newList [] = newList"
| "FilterOnVersion_loop NewVersion Check constriant newList (swVersion # rest) =
     (if \<not> Selectable swVersion then
        FilterOnVersion_loop NewVersion Check constriant newList rest
      else
        (case NewVersion (SoftwareVersion.Name swVersion) of
           Inl err \<Rightarrow> FilterOnVersion_loop NewVersion Check constriant newList rest
         | Inr v \<Rightarrow>
             if Check constriant v then
               FilterOnVersion_loop NewVersion Check constriant (newList @ [swVersion]) rest
             else FilterOnVersion_loop NewVersion Check constriant newList rest))"

definition FilterOnVersion ::
  "(string \<Rightarrow> error + 'v) \<Rightarrow> ('c \<Rightarrow> 'v \<Rightarrow> bool) \<Rightarrow>
   'z SoftwareVersion_scheme list \<Rightarrow> 'c \<Rightarrow> 'z SoftwareVersion_scheme list" where
  "FilterOnVersion NewVersion Check list constriant =
     FilterOnVersion_loop NewVersion Check constriant [] list"

fun FilterOnVersionStringList_loop ::
  "(string \<Rightarrow> error + 'v) \<Rightarrow> ('c \<Rightarrow> 'v \<Rightarrow> bool) \<Rightarrow> 'c \<Rightarrow>
   string list \<Rightarrow> 'z SoftwareVersion_scheme list \<Rightarrow> string list" where
  "FilterOnVersionStringList_loop NewVersion Check constriant newList [] = newList"
| "FilterOnVersionStringList_loop NewVersion Check constriant newList (swVersion # rest) =
     (if \<not> Selectable swVersion then
        FilterOnVersionStringList_loop NewVersion Check constriant newList rest
      else
        (case NewVersion (SoftwareVersion.Name swVersion) of
           Inl err \<Rightarrow> FilterOnVersionStringList_loop NewVersion Check constriant newList rest
         | Inr v \<Rightarrow>
             if Check constriant v then
               FilterOnVersionStringList_loop NewVersion Check constriant
                 (newList @ [SoftwareVersion.Name swVersion]) rest
             else FilterOnVersionStringList_loop NewVersion Check constriant newList rest))"

definition FilterOnVersionStringList ::
  "(string \<Rightarrow> error + 'v) \<Rightarrow> ('c \<Rightarrow> 'v \<Rightarrow> bool) \<Rightarrow>
   'z SoftwareVersion_scheme list \<Rightarrow> 'c \<Rightarrow> string list" where
  "FilterOnVersionStringList NewVersion Check list constriant =
     FilterOnVersionStringList_loop NewVersion Check constriant [] list"

text \<open>
  The inclusion condition as the specification words it: selectable, the name parses,
  and the parsed version satisfies the constraint.
\<close>

definition spec_included ::
  "(string \<Rightarrow> error + 'v) \<Rightarrow> ('c \<Rightarrow> 'v \<Rightarrow> bool) \<Rightarrow> 'c \<Rightarrow> 'z SoftwareVersion_scheme \<Rightarrow> bool" where
  "spec_included NewVersion Check constriant swVersion =
     (Selectable swVersion \<and>
      (case NewVersion (SoftwareVersion.Name swVersion) of
         Inl err \<Rightarrow> False
       | Inr v \<Rightarrow> Check constriant v))"

text \<open>
  A small version library for concrete runs: a name parses when it is a non-empty string
  of digits, its version is the number it denotes, and a constraint is a lower bound.
\<close>

definition toy_NewVersion :: "string \<Rightarrow> error + nat" where
  "toy_NewVersion name =
     (if name \<noteq> [] \<and> list_all (\<lambda>c. c \<in> set ''0123456789'') name
      then Inr (foldl (\<lambda>n c. 10 * n + (of_char c - 48)) 0 name)
      else Inl (Error (''Malformed version: '' @ name)))"

definition toy_Check :: "nat \<Rightarrow> nat \<Rightarrow> bool" where
  "toy_Check lower v = (lower \<le> v)"

section \<open>Producer endpoint\<close>

text \<open>
  The operations of \<^verbatim>\<open>ProducerEndpoint\<close> talk to the file system, to the image, JSON
  and multipart libraries and to the authenticated client of the package. Each of their
  calls is a field of the record \<open>world\<close>, which fixes what the call answers. What an
  operation leaves behind (file handles still open, the arguments of the requests it
  built, the requests it sent, log lines) is kept in the record \<open>state\<close>, passed in and
  returned. The \<^verbatim>\<open>context\<close> argument is left out.
\<close>

type_synonym bytes = string

record Point =
  X :: int
  Y :: int

record Rectangle =
  Min :: Point
  Max :: Point

definition image_Rect :: "int \<Rightarrow> int \<Rightarrow> int \<Rightarrow> int \<Rightarrow> Rectangle" where
  "image_Rect x0 y0 x1 y1 =
     \<lparr>Min = \<lparr>X = (if x0 > x1 then x1 else x0), Y = (if y0 > y1 then y1 else y0)\<rparr>,
      Max = \<lparr>X = (if x0 > x1 then x0 else x1), Y = (if y0 > y1 then y0 else y1)\<rparr>\<rparr>"

definition Dx :: "Rectangle \<Rightarrow> int" where
  "Dx r = X (Rectangle.Max r) - X (Rectangle.Min r)"

definition Dy :: "Rectangle \<Rightarrow> int" where
  "Dy r = Y (Rectangle.Max r) - Y (Rectangle.Min r)"

record RGBA =
  Pix :: bytes
  Stride :: int
  Rect :: Rectangle

text \<open>\<^verbatim>\<open>image.NewRGBA\<close>: a zeroed pixel buffer of four bytes for each pixel of the rectangle.\<close>

definition NewRGBA :: "Rectangle \<Rightarrow> RGBA" where
  "NewRGBA r =
     \<lparr>Pix = replicate (nat (4 * Dx r * Dy r)) (CHR 0x00), Stride = 4 * Dx r, Rect = r\<rparr>"

definition RGBA_Bounds :: "RGBA \<Rightarrow> Rectangle" where
  "RGBA_Bounds p = Rect p"

record Request =
  Method :: string
  URL :: string
  Body :: "bytes option"
  Header :: "(string \<times> string) list"

text \<open>\<^verbatim>\<open>r.Header.Set\<close>: the value replaces what the key had.\<close>

definition Header_Set :: "Request \<Rightarrow> string \<Rightarrow> string \<Rightarrow> Request" where
  "Header_Set r key v = r\<lparr>Header := (key, v) # filter (\<lambda>kv. fst kv \<noteq> key) (Header r)\<rparr>"

record ExtensionUpdateChangelog =
  Locale :: string
  Text :: string

record ExtensionUpdate =
  Id :: int
  SoftwareVersions :: "string list"
  IonCubeEncrypted :: bool
  LicenseCheckRequired :: bool
  Changelogs :: "ExtensionUpdateChangelog list"

record 'locale ExtensionImageDetail =
  Id :: int
  Preview :: bool
  Activated :: bool
  Caption :: string
  Locale :: 'locale

record 'locale ExtensionImage =
  Id :: int
  RemoteLink :: string
  Details :: "'locale ExtensionImageDetail list"
  Priority :: int

datatype log_line = Infof string | Debugf string

text \<open>
  An opened file: its path, its bytes and the read offset. \<^verbatim>\<open>Seek(0, io.SeekStart)\<close>
  puts the offset back to 0; \<^verbatim>\<open>io.Copy\<close> from the file yields the bytes from the
  offset to the end.
\<close>

record File =
  file_path :: string
  file_bytes :: bytes
  file_offset :: nat

definition Opened :: "string \<Rightarrow> bytes \<Rightarrow> File" where
  "Opened name data = \<lparr>file_path = name, file_bytes = data, file_offset = 0\<rparr>"

definition Seek_Start :: "File \<Rightarrow> File" where
  "Seek_Start f = f\<lparr>file_offset := 0\<rparr>"

definition Copied :: "File \<Rightarrow> bytes" where
  "Copied f = drop (file_offset f) (file_bytes f)"

text \<open>
  What a run leaves behind: the paths of the file handles opened and not closed, the
  arguments of the calls of \<^verbatim>\<open>NewAuthenticatedRequest\<close>, the requests given to
  \<^verbatim>\<open>doRequest\<close>, and the lines logged.
\<close>

record state =
  open_files :: "string list"
  requested :: "(string \<times> string \<times> bytes option) list"
  sent :: "Request list"
  logged :: "log_line list"

text \<open>
  The fields of \<open>world\<close>, by the call they answer:
  \<^item> \<open>ApiUrl\<close>, \<open>producerId\<close>: the package constant and the field of the endpoint;
  \<^item> \<open>NewAuthenticatedRequest\<close> (method, URL, body; \<open>None\<close> is the \<^verbatim>\<open>nil\<close> body) and
    \<open>doRequest\<close>: the two methods of the client \<^verbatim>\<open>e.c\<close>;
  \<^item> \<open>Marshal_ExtensionUpdate\<close>, \<open>Unmarshal_ExtensionImages\<close>: \<^verbatim>\<open>json.Marshal\<close> and
    \<^verbatim>\<open>json.Unmarshal\<close> at these types; a \<^verbatim>\<open>nil\<close> slice and an empty one are both \<open>[]\<close>;
  \<^item> \<open>filepath_Base\<close>: \<^verbatim>\<open>filepath.Base\<close>;
  \<^item> \<open>CreateFormFile\<close> (field name, file name): the bytes of the part header that the
    multipart writer puts into the buffer, or its error; \<open>multipart_Close\<close>: the bytes of
    the closing boundary, or the error of \<^verbatim>\<open>w.Close()\<close>; \<open>FormDataContentType\<close>;
  \<^item> \<open>os_Open\<close>: the bytes of the file at a path, or the error of \<^verbatim>\<open>os.Open\<close>;
    \<open>io_Copy_err\<close>, \<open>Seek_err\<close>, \<open>File_Close_err\<close>: the error, if any, of copying from,
    seeking in and closing the file opened at a path;
  \<^item> \<open>image_Decode\<close>: the decoded image together with the number of bytes the decoder has
    read, or the decoding error; \<open>Bounds\<close>: the bounds of an image;
  \<^item> \<open>CatmullRom_Scale\<close> (destination, its rectangle, source, its rectangle): the
    destination after \<^verbatim>\<open>draw.CatmullRom.Scale\<close>; \<open>png_Encode\<close>: the bytes \<^verbatim>\<open>png.Encode\<close>
    writes, or its error.
  The type \<open>'img\<close> stands for \<^verbatim>\<open>image.Image\<close>, the type \<open>'locale\<close> for the \<^verbatim>\<open>Locale\<close> struct
  of the package.
\<close>

record ('img, 'locale) world =
  ApiUrl :: string
  producerId :: int
  NewAuthenticatedRequest :: "string \<Rightarrow> string \<Rightarrow> bytes option \<Rightarrow> error + Request"
  doRequest :: "Request \<Rightarrow> error + bytes"
  Marshal_ExtensionUpdate :: "ExtensionUpdate \<Rightarrow> error + bytes"
  Unmarshal_ExtensionImages :: "bytes \<Rightarrow> error + 'locale ExtensionImage option list"
  filepath_Base :: "string \<Rightarrow> string"
  CreateFormFile :: "string \<Rightarrow> string \<Rightarrow> error + bytes"
  multipart_Close :: "error + bytes"
  FormDataContentType :: string
  os_Open :: "string \<Rightarrow> error + bytes"
  io_Copy_err :: "string \<Rightarrow> error option"
  Seek_err :: "string \<Rightarrow> error option"
  File_Close_err :: "string \<Rightarrow> error option"
  image_Decode :: "bytes \<Rightarrow> error + 'img \<times> nat"
  Bounds :: "'img \<Rightarrow> Rectangle"
  CatmullRom_Scale :: "RGBA \<Rightarrow> Rectangle \<Rightarrow> 'img \<Rightarrow> Rectangle \<Rightarrow> RGBA"
  png_Encode :: "RGBA \<Rightarrow> error + bytes"

datatype 'a outcome = Return 'a | Panic string

definition UpdateExtensionBinaryInfo ::
  "('img, 'locale) world \<Rightarrow> int \<Rightarrow> ExtensionUpdate \<Rightarrow> state \<Rightarrow> error option \<times> state" where
  "UpdateExtensionBinaryInfo W extensionId update s =
     (let errorFormat = ''UpdateExtensionBinaryInfo: %v'' in
      case Marshal_ExtensionUpdate W update of
        Inl err \<Rightarrow> (Some (Errorf errorFormat err), s)
      | Inr content \<Rightarrow>
         (let url = Sprintf ''%s/producers/%d/plugins/%d/binaries/%d''
                      [StrArg (ApiUrl W), IntArg (producerId W), IntArg extensionId,
                       IntArg (ExtensionUpdate.Id update)];
              s1 = s\<lparr>requested := requested s @ [(''PUT'', url, Some content)]\<rparr>
          in
          case NewAuthenticatedRequest W ''PUT'' url (Some content) of
            Inl err \<Rightarrow> (Some (Errorf errorFormat err), s1)
          | Inr r \<Rightarrow>
             (let s2 = s1\<lparr>sent := sent s1 @ [r]\<rparr> in
              case doRequest W r of
                Inl err \<Rightarrow> (Some err, s2)
              | Inr body \<Rightarrow> (None, s2))))"

definition UpdateExtensionBinaryFile ::
  "('img, 'locale) world \<Rightarrow> int \<Rightarrow> int \<Rightarrow> string \<Rightarrow> state \<Rightarrow> error option \<times> state" where
  "UpdateExtensionBinaryFile W extensionId binaryId zipPath s =
     (let errorFormat = ''UpdateExtensionBinaryFile: %v'' in
      case CreateFormFile W ''file'' (filepath_Base W zipPath) of
        Inl err \<Rightarrow> (Some (Errorf errorFormat err), s)
      | Inr b0 \<Rightarrow>
     (case os_Open W zipPath of
        Inl err \<Rightarrow> (Some (Errorf errorFormat err), s)
      | Inr data \<Rightarrow>
     (let zipFile = Opened zipPath data;
          s1 = s\<lparr>open_files := zipPath # open_files s\<rparr>
      in
      case io_Copy_err W zipPath of
        Some err \<Rightarrow> (Some (Errorf errorFormat err), s1)
      | None \<Rightarrow>
     (let b1 = b0 @ Copied zipFile in
      case multipart_Close W of
        Inl err \<Rightarrow> (Some (Errorf errorFormat err), s1)
      | Inr trailer \<Rightarrow>
     (let b2 = b1 @ trailer;
          url = Sprintf ''%s/producers/%d/plugins/%d/binaries/%d/file''
                  [StrArg (ApiUrl W), IntArg (producerId W), IntArg extensionId,
                   IntArg binaryId];
          s2 = s1\<lparr>requested := requested s1 @ [(''POST'', url, Some b2)]\<rparr>
      in
      case NewAuthenticatedRequest W ''POST'' url (Some b2) of
        Inl err \<Rightarrow> (Some (Errorf errorFormat err), s2)
      | Inr r \<Rightarrow>
     (let r1 = Header_Set r ''content-type'' (FormDataContentType W);
          s3 = s2\<lparr>sent := sent s2 @ [r1]\<rparr>
      in
      case doRequest W r1 of
        Inl err \<Rightarrow> (Some err, s3)
      | Inr body \<Rightarrow> (None, s3)))))))"

text \<open>
  \<^verbatim>\<open>UpdateExtensionIcon\<close>. Decoding moves the read offset of the icon file by the
  number of bytes the decoder has read, which \<open>image_Decode\<close> answers together with the
  image. \<^verbatim>\<open>iconFile.Close()\<close> gives the handle back whether or not it reports an
  error.
\<close>

definition UpdateExtensionIcon ::
  "('img, 'locale) world \<Rightarrow> int \<Rightarrow> string \<Rightarrow> state \<Rightarrow> error option \<times> state" where
  "UpdateExtensionIcon W extensionId iconFilePath s =
     (let errorFormat = ''UpdateExtensionIcon: %v'' in
      case CreateFormFile W ''file'' (filepath_Base W iconFilePath) of
        Inl err \<Rightarrow> (Some (Errorf errorFormat err), s)
      | Inr b0 \<Rightarrow>
     (case os_Open W iconFilePath of
        Inl err \<Rightarrow> (Some (Errorf errorFormat err), s)
      | Inr data \<Rightarrow>
     (let iconFile = Opened iconFilePath data;
          s1 = s\<lparr>open_files := iconFilePath # open_files s\<rparr>
      in
      case image_Decode W (Copied iconFile) of
        Inl err \<Rightarrow> (Some (Errorf errorFormat err), s1)
      | Inr (img, consumed) \<Rightarrow>
     (let iconFile1 = iconFile\<lparr>file_offset := file_offset iconFile + consumed\<rparr> in
      case
        (if Dx (Bounds W img) \<noteq> 256 \<or> Dy (Bounds W img) \<noteq> 256 then
           (let s2 = s1\<lparr>logged := logged s1 @
                       [Infof (Sprintf ''Resizing store icon image from %dx%d to 256x256''
                          [IntArg (Dx (Bounds W img)), IntArg (Dy (Bounds W img))])]\<rparr>;
                dst = NewRGBA (image_Rect 0 0 256 256);
                dst1 = CatmullRom_Scale W dst (RGBA_Bounds dst) img (Bounds W img)
            in
            case png_Encode W dst1 of
              Inl err \<Rightarrow> (Inl (Errorf errorFormat err), s2)
            | Inr encoded \<Rightarrow> (Inr (b0 @ encoded), s2))
         else
           (let s2 = s1\<lparr>logged := logged s1 @
                       [Debugf ''Store icon image is already 256x256, copying original file'']\<rparr>
            in
            case Seek_err W iconFilePath of
              Some err \<Rightarrow> (Inl (Errorf errorFormat err), s2)
            | None \<Rightarrow>
               (let iconFile2 = Seek_Start iconFile1 in
                case io_Copy_err W iconFilePath of
                  Some err \<Rightarrow> (Inl (Errorf errorFormat err), s2)
                | None \<Rightarrow> (Inr (b0 @ Copied iconFile2), s2))))
      of
        (Inl err, s2) \<Rightarrow> (Some err, s2)
      | (Inr b1, s2) \<Rightarrow>
     (let s3 = s2\<lparr>open_files := remove1 iconFilePath (open_files s2)\<rparr> in
      case File_Close_err W iconFilePath of
        Some err \<Rightarrow> (Some (Errorf errorFormat err), s3)
      | None \<Rightarrow>
     (case multipart_Close W of
        Inl err \<Rightarrow> (Some (Errorf errorFormat err), s3)
      | Inr trailer \<Rightarrow>
     (let b2 = b1 @ trailer;
          url = Sprintf ''%s/plugins/%d/icon'' [StrArg (ApiUrl W), IntArg extensionId];
          s4 = s3\<lparr>requested := requested s3 @ [(''POST'', url, Some b2)]\<rparr>
      in
      case NewAuthenticatedRequest W ''POST'' url (Some b2) of
        Inl err \<Rightarrow> (Some (Errorf errorFormat err), s4)
      | Inr r \<Rightarrow>
     (let r1 = Header_Set r ''content-type'' (FormDataContentType W);
          s5 = s4\<lparr>sent := sent s4 @ [r1]\<rparr>
      in
      case doRequest W r1 of
        Inl err \<Rightarrow> (Some err, s5)
      | Inr body \<Rightarrow> (None, s5)))))))))"

text \<open>
  \<^verbatim>\<open>AddExtensionImage\<close> returns a pointer and an error, or panics: \<^verbatim>\<open>list[0]\<close> on an
  empty slice is a run-time panic. A pointer is an \<open>option\<close> (\<open>None\<close> is \<^verbatim>\<open>nil\<close>).
\<close>

definition AddExtensionImage ::
  "('img, 'locale) world \<Rightarrow> int \<Rightarrow> string \<Rightarrow> state \<Rightarrow>
   (error + 'locale ExtensionImage option) outcome \<times> state" where
  "AddExtensionImage W extensionId file s =
     (let errorFormat = ''AddExtensionImage: %v'' in
      case CreateFormFile W ''file'' (filepath_Base W file) of
        Inl err \<Rightarrow> (Return (Inl (Errorf errorFormat err)), s)
      | Inr b0 \<Rightarrow>
     (case os_Open W file of
        Inl err \<Rightarrow> (Return (Inl (Errorf errorFormat err)), s)
      | Inr data \<Rightarrow>
     (let zipFile = Opened file data;
          s1 = s\<lparr>open_files := file # open_files s\<rparr>
      in
      case io_Copy_err W file of
        Some err \<Rightarrow> (Return (Inl (Errorf errorFormat err)), s1)
      | None \<Rightarrow>
     (let b1 = b0 @ Copied zipFile in
      case multipart_Close W of
        Inl err \<Rightarrow> (Return (Inl (Errorf errorFormat err)), s1)
      | Inr trailer \<Rightarrow>
     (let b2 = b1 @ trailer;
          url = Sprintf ''%s/plugins/%d/pictures'' [StrArg (ApiUrl W), IntArg extensionId];
          s2 = s1\<lparr>requested := requested s1 @ [(''POST'', url, Some b2)]\<rparr>
      in
      case NewAuthenticatedRequest W ''POST'' url (Some b2) of
        Inl err \<Rightarrow> (Return (Inl (Errorf errorFormat err)), s2)
      | Inr r \<Rightarrow>
     (let r1 = Header_Set r ''content-type'' (FormDataContentType W);
          s3 = s2\<lparr>sent := sent s2 @ [r1]\<rparr>
      in
      case doRequest W r1 of
        Inl err \<Rightarrow> (Return (Inl (Errorf errorFormat err)), s3)
      | Inr body \<Rightarrow>
     (case Unmarshal_ExtensionImages W body of
        Inl err \<Rightarrow> (Return (Inl (Errorf ''AddExtensionImage: %v'' err)), s3)
      | Inr list \<Rightarrow>
     (case list of
        [] \<Rightarrow> (Panic ''runtime error: index out of range [0] with length 0'', s3)
      | first # others \<Rightarrow> (Return (Inr first), s3)))))))))"

definition TriggerCodeReview ::
  "('img, 'locale) world \<Rightarrow> int \<Rightarrow> state \<Rightarrow> error option \<times> state" where
  "TriggerCodeReview W extensionId s =
     (let errorFormat = ''TriggerCodeReview: %v'';
          url = Sprintf ''%s/plugins/%d/reviews'' [StrArg (ApiUrl W), IntArg extensionId];
          s1 = s\<lparr>requested := requested s @ [(''POST'', url, None)]\<rparr>
      in
      case NewAuthenticatedRequest W ''POST'' url None of
        Inl err \<Rightarrow> (Some (Errorf errorFormat err), s1)
      | Inr r \<Rightarrow>
         (let s2 = s1\<lparr>sent := sent s1 @ [r]\<rparr> in
          case doRequest W r of
            Inl err \<Rightarrow> (Some err, s2)
          | Inr body \<Rightarrow> (None, s2)))"

section \<open>Concrete inputs\<close>

definition example_versions :: "SoftwareVersion list" where
  "example_versions =
     [\<lparr>SoftwareVersion.Id = 1, Name = ''6400'', Selectable = True\<rparr>,
      \<lparr>SoftwareVersion.Id = 2, Name = ''6500'', Selectable = False\<rparr>,
      \<lparr>SoftwareVersion.Id = 3, Name = ''bad-version'', Selectable = True\<rparr>]"

definition example_review :: "int \<Rightarrow> string \<Rightarrow> SubCheckResult list \<Rightarrow> BinaryReviewResult" where
  "example_review type_id type_name subs =
     \<lparr>BinaryReviewResult.Id = 1, BinaryId = 2,
      Type = \<lparr>ReviewType.Id = type_id, Name = type_name, Description = ''''\<rparr>,
      Message = '''', CreationDate = ''2024-01-01'', SubCheckResults = subs\<rparr>"

definition example_subcheck :: "string \<Rightarrow> bool \<Rightarrow> string \<Rightarrow> bool \<Rightarrow> SubCheckResult" where
  "example_subcheck name passed message warnings =
     \<lparr>SubCheck = name, Status = '''', Passed = passed, Message = message,
      HasWarnings = warnings\<rparr>"

definition empty_state :: state where
  "empty_state = \<lparr>open_files = [], requested = [], sent = [], logged = []\<rparr>"

definition example_image :: "unit ExtensionImage" where
  "example_image =
     \<lparr>ExtensionImage.Id = 9, RemoteLink = ''https://cdn.example/9.png'', Details = [],
      Priority = 0\<rparr>"

text \<open>
  A world in which every call succeeds. An image is represented by its bounds. The files:
  \<^verbatim>\<open>icon.png\<close> decodes to 256 by 256 pixels, \<^verbatim>\<open>wide.png\<close> to 512 by 256, and
  \<^verbatim>\<open>plugin.png\<close> holds the four bytes \<^verbatim>\<open>test\<close>, which no decoder accepts.
\<close>

definition example_world :: "(Rectangle, unit) world" where
  "example_world =
     \<lparr>ApiUrl = ''https://api.example'',
      producerId = 7,
      NewAuthenticatedRequest = (\<lambda>m u b. Inr \<lparr>Method = m, URL = u, Body = b, Header = []\<rparr>),
      doRequest = (\<lambda>r. Inr ''[]''),
      Marshal_ExtensionUpdate = (\<lambda>u. Inr ''{}''),
      Unmarshal_ExtensionImages =
        (\<lambda>b. if b = ''[]'' then Inr []
             else if b = ''[9]'' then Inr [Some example_image]
             else Inl (Error ''unexpected end of JSON input'')),
      filepath_Base = (\<lambda>p. p),
      CreateFormFile = (\<lambda>field name. Inr (''--B;'' @ name @ '';'')),
      multipart_Close = Inr '';--B--'',
      FormDataContentType = ''multipart/form-data; boundary=B'',
      os_Open =
        (\<lambda>p. if p = ''icon.png'' then Inr ''PNG256''
             else if p = ''wide.png'' then Inr ''JPEG512''
             else if p = ''plugin.png'' then Inr ''test''
             else if p = ''ext.zip'' then Inr ''PK''
             else Inl (Error (''open '' @ p @ '': no such file or directory''))),
      io_Copy_err = (\<lambda>p. None),
      Seek_err = (\<lambda>p. None),
      File_Close_err = (\<lambda>p. None),
      image_Decode =
        (\<lambda>data. if data = ''PNG256'' then Inr (image_Rect 0 0 256 256, 6)
                else if data = ''JPEG512'' then Inr (image_Rect 0 0 512 256, 7)
                else Inl (Error ''image: unknown format'')),
      Bounds = (\<lambda>img. img),
      CatmullRom_Scale = (\<lambda>dst dr src sr. dst),
      png_Encode = (\<lambda>dst. Inr ''PNG'')\<rparr>"

section \<open>Properties of the review results\<close>

lemma Sprintf_header: "Sprintf ''=== %s ===\<newline>'' [StrArg s] = ''=== '' @ s @ '' ===\<newline>''"
  by simp

lemma Sprintf_message: "Sprintf ''%s\<newline>\<newline>'' [StrArg s] = s @ ''\<newline>\<newline>''"
  by simp

lemma GetSummary_loop_step:
  "GetSummary_loop Sanitize message (result # rest) =
     (if spec_reported result
      then GetSummary_loop Sanitize (message @ spec_summary_entry Sanitize result) rest
      else GetSummary_loop Sanitize message rest)"
  unfolding GetSummary_loop.simps Sprintf_header Sprintf_message
  by (simp add: spec_reported_def spec_summary_entry_def)

lemma GetSummary_loop_eq:
  "GetSummary_loop Sanitize message subs =
     message @ concat (map (spec_summary_entry Sanitize) (filter spec_reported subs))"
proof (induction subs arbitrary: message)
  case Nil
  show ?case by simp
next
  case (Cons result rest)
  show ?case
    unfolding GetSummary_loop_step Cons.IH by simp
qed

lemma HasWarnings_loop_iff:
  "HasWarnings_loop subs = (\<exists>result \<in> set subs. SubCheckResult.HasWarnings result)"
  by (induction subs) auto

text \<open>
  C1. A review has passed exactly when its type id is the success code 3 or its type
  name is the success name; so a review whose type matches by name only, with another
  id, has passed too.
\<close>

theorem HasPassed_dual_match:
  "HasPassed review =
     (ReviewType.Id (Type review) = 3 \<or>
      ReviewType.Name (Type review) = ''automaticcodereviewsucceeded'')
   \<and> (ReviewType.Name (Type review) = ''automaticcodereviewsucceeded'' \<and>
        ReviewType.Id (Type review) \<noteq> 3 \<longrightarrow> HasPassed review)"
  by (simp add: HasPassed_def)

theorem HasPassed_dual_match_witness:
  "ReviewType.Name (Type (example_review 7 ''automaticcodereviewsucceeded'' [])) =
     ''automaticcodereviewsucceeded''
   \<and> ReviewType.Id (Type (example_review 7 ''automaticcodereviewsucceeded'' [])) \<noteq> 3
   \<and> HasPassed (example_review 7 ''automaticcodereviewsucceeded'' [])
   \<and> HasPassed (example_review 3 ''other'' [])
   \<and> \<not> HasPassed (example_review 4 ''other'' [])"
  using HasPassed_dual_match [of "example_review 7 ''automaticcodereviewsucceeded'' []"]
    HasPassed_dual_match [of "example_review 3 ''other'' []"]
    HasPassed_dual_match [of "example_review 4 ''other'' []"]
  by (simp add: example_review_def)

text \<open>
  C4, as the code has it. \<^verbatim>\<open>IsPending\<close> looks at the type id alone: a review is
  pending exactly when its type id is 4, whatever its type name. A review is both pending
  and passed exactly when its type id is 4 and its type name is the success name; a
  review whose type name is not the success name is never both.
\<close>

theorem IsPending_by_id_only:
  "IsPending review = (ReviewType.Id (Type review) = 4)
   \<and> ((IsPending review \<and> HasPassed review) =
        (ReviewType.Id (Type review) = 4 \<and>
         ReviewType.Name (Type review) = ''automaticcodereviewsucceeded''))
   \<and> (ReviewType.Name (Type review) \<noteq> ''automaticcodereviewsucceeded'' \<longrightarrow>
        \<not> (IsPending review \<and> HasPassed review))"
  by (auto simp: IsPending_def HasPassed_def)

theorem IsPending_by_id_only_witness:
  "ReviewType.Name (Type (example_review 4 ''automaticcodereviewpending'' [])) \<noteq>
     ''automaticcodereviewsucceeded''
   \<and> IsPending (example_review 4 ''automaticcodereviewpending'' [])
   \<and> \<not> HasPassed (example_review 4 ''automaticcodereviewpending'' [])"
  using IsPending_by_id_only [of "example_review 4 ''automaticcodereviewpending'' []"]
  by (simp add: example_review_def)

text \<open>
  C4, as the claim states it, fails: the review with type id 4 and the success name is
  pending although its success discriminant is present, and it is both pending and
  passed.
\<close>

theorem IsPending_counterexample:
  "IsPending (example_review 4 ''automaticcodereviewsucceeded'' [])
   \<and> HasPassed (example_review 4 ''automaticcodereviewsucceeded'' [])
   \<and> \<not> (IsPending (example_review 4 ''automaticcodereviewsucceeded'' []) =
          (ReviewType.Id (Type (example_review 4 ''automaticcodereviewsucceeded'' [])) = 4 \<and>
           \<not> (ReviewType.Id (Type (example_review 4 ''automaticcodereviewsucceeded'' [])) = 3 \<or>
              ReviewType.Name (Type (example_review 4 ''automaticcodereviewsucceeded'' [])) =
                ''automaticcodereviewsucceeded'')))"
  by (simp add: IsPending_def HasPassed_def example_review_def)

text \<open>
  C5. The summary is the concatenation, in order, of one entry for each sub-check that
  failed or carries warnings: the header line naming the sub-check, the sanitized
  message, and an empty line. Sub-checks that passed without warnings add nothing, so a
  review whose sub-checks all passed without warnings has the empty summary.
\<close>

theorem GetSummary_spec:
  "GetSummary Sanitize review =
     concat (map (spec_summary_entry Sanitize) (filter spec_reported (SubCheckResults review)))
   \<and> ((\<forall>result \<in> set (SubCheckResults review).
          Passed result \<and> \<not> SubCheckResult.HasWarnings result) \<longrightarrow>
        GetSummary Sanitize review = '''')"
proof -
  have eq: "GetSummary Sanitize review =
     concat (map (spec_summary_entry Sanitize) (filter spec_reported (SubCheckResults review)))"
    by (simp add: GetSummary_def GetSummary_loop_eq)
  have "(\<forall>result \<in> set (SubCheckResults review).
          Passed result \<and> \<not> SubCheckResult.HasWarnings result) \<Longrightarrow>
        filter spec_reported (SubCheckResults review) = []"
    by (simp add: filter_empty_conv spec_reported_def)
  with eq show ?thesis by simp
qed

theorem GetSummary_spec_witness:
  "list_all (\<lambda>result. Passed result \<and> \<not> SubCheckResult.HasWarnings result)
     (SubCheckResults (example_review 3 ''ok''
        [example_subcheck ''a'' True ''fine'' False, example_subcheck ''b'' True '''' False]))
   \<and> GetSummary (\<lambda>m. m) (example_review 3 ''ok''
        [example_subcheck ''a'' True ''fine'' False, example_subcheck ''b'' True '''' False]) = ''''
   \<and> GetSummary (\<lambda>m. m) (example_review 1 ''failed''
        [example_subcheck ''a'' True ''fine'' False, example_subcheck ''b'' False ''hello'' False,
         example_subcheck ''c'' True ''careful'' True]) =
       ''=== b ===\<newline>hello\<newline>\<newline>=== c ===\<newline>careful\<newline>\<newline>''"
  using GetSummary_spec [of "\<lambda>m. m" "example_review 3 ''ok''
        [example_subcheck ''a'' True ''fine'' False, example_subcheck ''b'' True '''' False]"]
    GetSummary_spec [of "\<lambda>m. m" "example_review 1 ''failed''
        [example_subcheck ''a'' True ''fine'' False, example_subcheck ''b'' False ''hello'' False,
         example_subcheck ''c'' True ''careful'' True]"]
  by (simp add: example_review_def example_subcheck_def spec_reported_def
      spec_summary_entry_def)

text \<open>
  C8. A review has warnings exactly when at least one of its sub-checks sets its
  warnings flag. The pass states of the sub-checks and the type of the review do not
  matter, and a review without sub-checks has no warnings.
\<close>

theorem HasWarnings_any_subcheck:
  "HasWarnings review =
     (\<exists>result \<in> set (SubCheckResults review). SubCheckResult.HasWarnings result)
   \<and> HasWarnings (review\<lparr>SubCheckResults :=
        map (\<lambda>result. result\<lparr>Passed := p result\<rparr>) (SubCheckResults review)\<rparr>) = HasWarnings review
   \<and> HasWarnings (review\<lparr>Type := t\<rparr>) = HasWarnings review
   \<and> (SubCheckResults review = [] \<longrightarrow> \<not> HasWarnings review)"
  by (auto simp: HasWarnings_def HasWarnings_loop_iff)

theorem HasWarnings_any_subcheck_witness:
  "SubCheckResults (example_review 3 ''ok'' []) = []
   \<and> \<not> HasWarnings (example_review 3 ''ok'' [])
   \<and> HasWarnings (example_review 3 ''ok''
        [example_subcheck ''a'' True '''' False, example_subcheck ''b'' True ''careful'' True])"
  using HasWarnings_any_subcheck [of "example_review 3 ''ok'' []"]
    HasWarnings_any_subcheck [of "example_review 3 ''ok''
        [example_subcheck ''a'' True '''' False, example_subcheck ''b'' True ''careful'' True]"]
  by (simp add: example_review_def example_subcheck_def)

section \<open>Properties of the version filter\<close>

lemma FilterOnVersion_loop_step:
  "FilterOnVersion_loop NewVersion Check constriant newList (swVersion # rest) =
     (if spec_included NewVersion Check constriant swVersion
      then FilterOnVersion_loop NewVersion Check constriant (newList @ [swVersion]) rest
      else FilterOnVersion_loop NewVersion Check constriant newList rest)"
  by (simp add: spec_included_def split: sum.splits)

lemma FilterOnVersion_loop_eq:
  "FilterOnVersion_loop NewVersion Check constriant newList list =
     newList @ filter (spec_included NewVersion Check constriant) list"
proof (induction list arbitrary: newList)
  case Nil
  show ?case by simp
next
  case (Cons swVersion rest)
  show ?case unfolding FilterOnVersion_loop_step Cons.IH by simp
qed

lemma FilterOnVersionStringList_loop_step:
  "FilterOnVersionStringList_loop NewVersion Check constriant newList (swVersion # rest) =
     (if spec_included NewVersion Check constriant swVersion
      then FilterOnVersionStringList_loop NewVersion Check constriant
             (newList @ [SoftwareVersion.Name swVersion]) rest
      else FilterOnVersionStringList_loop NewVersion Check constriant newList rest)"
  by (simp add: spec_included_def split: sum.splits)

lemma FilterOnVersionStringList_loop_eq:
  "FilterOnVersionStringList_loop NewVersion Check constriant newList list =
     newList @ map SoftwareVersion.Name (filter (spec_included NewVersion Check constriant) list)"
proof (induction list arbitrary: newList)
  case Nil
  show ?case by simp
next
  case (Cons swVersion rest)
  show ?case unfolding FilterOnVersionStringList_loop_step Cons.IH by simp
qed

lemma FilterOnVersion_filter:
  "FilterOnVersion NewVersion Check list constriant =
     filter (spec_included NewVersion Check constriant) list"
  by (simp add: FilterOnVersion_def FilterOnVersion_loop_eq)

text \<open>
  C2. \<^verbatim>\<open>FilterOnVersion\<close> keeps exactly the entries that are selectable, whose name
  parses and whose version satisfies the constraint, in their order in the input;
  \<^verbatim>\<open>FilterOnVersionStringList\<close> gives the names of the same entries. An entry that is
  not selectable or does not parse is passed over: the result is the one of the list
  without it. Both functions return a list for every input; there is no error result.
\<close>

theorem FilterOnVersion_spec:
  "FilterOnVersion NewVersion Check list constriant =
     filter (spec_included NewVersion Check constriant) list
   \<and> FilterOnVersionStringList NewVersion Check list constriant =
       map SoftwareVersion.Name (FilterOnVersion NewVersion Check list constriant)
   \<and> (swVersion \<in> set (FilterOnVersion NewVersion Check list constriant) \<longleftrightarrow>
        swVersion \<in> set list \<and> spec_included NewVersion Check constriant swVersion)
   \<and> subseq (FilterOnVersion NewVersion Check list constriant) list
   \<and> (\<not> Selectable swVersion \<or> isl (NewVersion (SoftwareVersion.Name swVersion)) \<longrightarrow>
        FilterOnVersion NewVersion Check (before @ swVersion # after) constriant =
        FilterOnVersion NewVersion Check (before @ after) constriant)"
proof -
  have "\<not> Selectable swVersion \<or> isl (NewVersion (SoftwareVersion.Name swVersion)) \<Longrightarrow>
        \<not> spec_included NewVersion Check constriant swVersion"
    by (auto simp: spec_included_def split: sum.splits)
  then show ?thesis
    by (auto simp: FilterOnVersion_filter FilterOnVersionStringList_def
        FilterOnVersionStringList_loop_eq)
qed

theorem FilterOnVersion_spec_witness:
  "\<not> Selectable (example_versions ! 1)
   \<and> isl (toy_NewVersion (SoftwareVersion.Name (example_versions ! 2)))
   \<and> FilterOnVersion toy_NewVersion toy_Check example_versions 6400 = [example_versions ! 0]
   \<and> FilterOnVersionStringList toy_NewVersion toy_Check example_versions 6400 = [''6400'']
   \<and> FilterOnVersion toy_NewVersion toy_Check example_versions 6401 = []"
  using FilterOnVersion_spec [of toy_NewVersion toy_Check example_versions 6400
      "example_versions ! 1" "[example_versions ! 0]" "[example_versions ! 2]"]
    FilterOnVersion_spec [of toy_NewVersion toy_Check example_versions 6401
      "example_versions ! 2" "take 2 example_versions" "[]"]
  by (simp add: example_versions_def spec_included_def toy_NewVersion_def toy_Check_def)

text \<open>
  C10. Filtering the result of \<^verbatim>\<open>FilterOnVersion\<close> again with the same constraint
  returns it unchanged.
\<close>

theorem FilterOnVersion_idempotent:
  "FilterOnVersion NewVersion Check (FilterOnVersion NewVersion Check list constriant) constriant =
     FilterOnVersion NewVersion Check list constriant"
  by (simp add: FilterOnVersion_filter)

section \<open>Properties of the producer endpoint\<close>

lemma RGBA_Bounds_NewRGBA: "RGBA_Bounds (NewRGBA r) = r"
  by (simp add: RGBA_Bounds_def NewRGBA_def)

lemma Copied_Opened: "Copied (Opened name data) = data"
  by (simp add: Copied_def Opened_def)

lemma Copied_Seek_Start: "Copied (Seek_Start (f\<lparr>file_offset := n\<rparr>)) = file_bytes f"
  by (simp add: Copied_def Seek_Start_def)

lemma file_bytes_Opened: "file_bytes (Opened name data) = data"
  by (simp add: Opened_def)

text \<open>
  C3. When the file opens, decodes, closes and the multipart writer closes, the body
  handed to the request holds, between the part header and the closing boundary: the
  bytes of the icon file as they are, when the decoded image is 256 by 256 pixels (and
  seeking and copying succeed); otherwise the PNG encoding of the Catmull-Rom scaling of
  the image into a new canvas, whatever the format of the file was. The new canvas is 256
  by 256 pixels.
\<close>

theorem UpdateExtensionIcon_body:
  assumes "CreateFormFile W ''file'' (filepath_Base W iconFilePath) = Inr header"
    and "os_Open W iconFilePath = Inr data"
    and "image_Decode W data = Inr (img, consumed)"
    and "File_Close_err W iconFilePath = None"
    and "multipart_Close W = Inr trailer"
  shows
    "(Dx (Bounds W img) = 256 \<and> Dy (Bounds W img) = 256 \<and>
      Seek_err W iconFilePath = None \<and> io_Copy_err W iconFilePath = None \<longrightarrow>
        requested (snd (UpdateExtensionIcon W extensionId iconFilePath s)) =
          requested s @
            [(''POST'', Sprintf ''%s/plugins/%d/icon'' [StrArg (ApiUrl W), IntArg extensionId],
              Some (header @ data @ trailer))])
     \<and> ((Dx (Bounds W img) \<noteq> 256 \<or> Dy (Bounds W img) \<noteq> 256) \<and>
         png_Encode W
           (CatmullRom_Scale W (NewRGBA (image_Rect 0 0 256 256)) (image_Rect 0 0 256 256)
              img (Bounds W img)) = Inr encoded \<longrightarrow>
        requested (snd (UpdateExtensionIcon W extensionId iconFilePath s)) =
          requested s @
            [(''POST'', Sprintf ''%s/plugins/%d/icon'' [StrArg (ApiUrl W), IntArg extensionId],
              Some (header @ encoded @ trailer))])
     \<and> Dx (RGBA_Bounds (NewRGBA (image_Rect 0 0 256 256))) = 256
     \<and> Dy (RGBA_Bounds (NewRGBA (image_Rect 0 0 256 256))) = 256"
proof (intro conjI impI)
  assume same: "Dx (Bounds W img) = 256 \<and> Dy (Bounds W img) = 256 \<and>
      Seek_err W iconFilePath = None \<and> io_Copy_err W iconFilePath = None"
  show "requested (snd (UpdateExtensionIcon W extensionId iconFilePath s)) =
          requested s @
            [(''POST'', Sprintf ''%s/plugins/%d/icon'' [StrArg (ApiUrl W), IntArg extensionId],
              Some (header @ data @ trailer))]"
    unfolding UpdateExtensionIcon_def Let_def Copied_Opened Copied_Seek_Start file_bytes_Opened
    using assms same by (simp split: sum.splits del: Sprintf.simps)
next
  assume other: "(Dx (Bounds W img) \<noteq> 256 \<or> Dy (Bounds W img) \<noteq> 256) \<and>
         png_Encode W
           (CatmullRom_Scale W (NewRGBA (image_Rect 0 0 256 256)) (image_Rect 0 0 256 256)
              img (Bounds W img)) = Inr encoded"
  show "requested (snd (UpdateExtensionIcon W extensionId iconFilePath s)) =
          requested s @
            [(''POST'', Sprintf ''%s/plugins/%d/icon'' [StrArg (ApiUrl W), IntArg extensionId],
              Some (header @ encoded @ trailer))]"
    unfolding UpdateExtensionIcon_def Let_def Copied_Opened RGBA_Bounds_NewRGBA
    using assms other by (auto split: sum.splits simp del: Sprintf.simps)
next
  show "Dx (RGBA_Bounds (NewRGBA (image_Rect 0 0 256 256))) = 256"
    by (simp add: RGBA_Bounds_NewRGBA Dx_def image_Rect_def)
next
  show "Dy (RGBA_Bounds (NewRGBA (image_Rect 0 0 256 256))) = 256"
    by (simp add: RGBA_Bounds_NewRGBA Dy_def image_Rect_def)
qed

theorem UpdateExtensionIcon_body_witness:
  "requested (snd (UpdateExtensionIcon example_world 5 ''icon.png'' empty_state)) =
     [(''POST'', ''https://api.example/plugins/5/icon'', Some ''--B;icon.png;PNG256;--B--'')]
   \<and> requested (snd (UpdateExtensionIcon example_world 5 ''wide.png'' empty_state)) =
     [(''POST'', ''https://api.example/plugins/5/icon'', Some ''--B;wide.png;PNG;--B--'')]"
  using UpdateExtensionIcon_body [where W = example_world and iconFilePath = "''icon.png''"
      and header = "''--B;icon.png;''" and data = "''PNG256''"
      and img = "image_Rect 0 0 256 256" and consumed = 6 and trailer = "'';--B--''"
      and encoded = "''PNG''" and extensionId = 5 and s = empty_state]
    UpdateExtensionIcon_body [where W = example_world and iconFilePath = "''wide.png''"
      and header = "''--B;wide.png;''" and data = "''JPEG512''"
      and img = "image_Rect 0 0 512 256" and consumed = 7 and trailer = "'';--B--''"
      and encoded = "''PNG''" and extensionId = 5 and s = empty_state]
  by (simp add: example_world_def empty_state_def Dx_def Dy_def image_Rect_def Itoa_def
      nat_digits.simps)

text \<open>
  C6. When the upload goes through and the response deserializes to the empty list,
  \<^verbatim>\<open>AddExtensionImage\<close> panics with an index out of range; it does not return, so it
  returns no error value. When the response deserializes to a list of one element, it
  returns that element.
\<close>

theorem AddExtensionImage_first_element:
  assumes "CreateFormFile W ''file'' (filepath_Base W imageFile) = Inr header"
    and "os_Open W imageFile = Inr data"
    and "io_Copy_err W imageFile = None"
    and "multipart_Close W = Inr trailer"
    and "NewAuthenticatedRequest W ''POST''
           (Sprintf ''%s/plugins/%d/pictures'' [StrArg (ApiUrl W), IntArg extensionId])
           (Some (header @ data @ trailer)) = Inr r"
    and "doRequest W (Header_Set r ''content-type'' (FormDataContentType W)) = Inr body"
  shows
    "(Unmarshal_ExtensionImages W body = Inr [] \<longrightarrow>
        fst (AddExtensionImage W extensionId imageFile s) =
          Panic ''runtime error: index out of range [0] with length 0''
        \<and> (\<forall>result. fst (AddExtensionImage W extensionId imageFile s) \<noteq> Return result))
     \<and> (Unmarshal_ExtensionImages W body = Inr [picture] \<longrightarrow>
        fst (AddExtensionImage W extensionId imageFile s) = Return (Inr picture))"
  unfolding AddExtensionImage_def Let_def Copied_Opened
  using assms by (simp del: Sprintf.simps)

theorem AddExtensionImage_first_element_witness:
  "fst (AddExtensionImage example_world 5 ''icon.png'' empty_state) =
     Panic ''runtime error: index out of range [0] with length 0''
   \<and> fst (AddExtensionImage (example_world\<lparr>doRequest := \<lambda>r. Inr ''[9]''\<rparr>) 5 ''icon.png''
        empty_state) = Return (Inr (Some example_image))"
  using AddExtensionImage_first_element [where W = example_world and imageFile = "''icon.png''"
      and header = "''--B;icon.png;''" and data = "''PNG256''" and trailer = "'';--B--''"
      and extensionId = 5
      and r = "\<lparr>Method = ''POST'', URL = ''https://api.example/plugins/5/pictures'',
        Body = Some ''--B;icon.png;PNG256;--B--'', Header = []\<rparr>"
      and body = "''[]''" and s = empty_state and picture = "Some example_image"]
    AddExtensionImage_first_element [where W = "example_world\<lparr>doRequest := \<lambda>r. Inr ''[9]''\<rparr>"
      and imageFile = "''icon.png''"
      and header = "''--B;icon.png;''" and data = "''PNG256''" and trailer = "'';--B--''"
      and extensionId = 5
      and r = "\<lparr>Method = ''POST'', URL = ''https://api.example/plugins/5/pictures'',
        Body = Some ''--B;icon.png;PNG256;--B--'', Header = []\<rparr>"
      and body = "''[9]''" and s = empty_state and picture = "Some example_image"]
  by (simp add: example_world_def Itoa_def nat_digits.simps)

text \<open>
  C7 fails on the code. When the request itself fails, \<^verbatim>\<open>TriggerCodeReview\<close>,
  \<^verbatim>\<open>UpdateExtensionBinaryInfo\<close> and \<^verbatim>\<open>UpdateExtensionBinaryFile\<close> return the error of
  \<^verbatim>\<open>doRequest\<close> as it is, without the label of the call site. The errors of the earlier
  steps carry the label, and so does the error of \<^verbatim>\<open>doRequest\<close> in
  \<^verbatim>\<open>AddExtensionImage\<close>.
\<close>

theorem doRequest_error_unlabelled:
  "fst (TriggerCodeReview (example_world\<lparr>doRequest := \<lambda>r. Inl (Error ''connection refused'')\<rparr>)
         5 empty_state) = Some (Error ''connection refused'')
   \<and> fst (UpdateExtensionBinaryInfo
         (example_world\<lparr>doRequest := \<lambda>r. Inl (Error ''connection refused'')\<rparr>) 5
         \<lparr>ExtensionUpdate.Id = 11, SoftwareVersions = [''6.4.0.0''], IonCubeEncrypted = False,
          LicenseCheckRequired = False, Changelogs = []\<rparr> empty_state) =
       Some (Error ''connection refused'')
   \<and> fst (UpdateExtensionBinaryFile
         (example_world\<lparr>doRequest := \<lambda>r. Inl (Error ''connection refused'')\<rparr>) 5 11
         ''ext.zip'' empty_state) = Some (Error ''connection refused'')
   \<and> fst (TriggerCodeReview
         (example_world\<lparr>NewAuthenticatedRequest := \<lambda>m u b. Inl (Error ''no token'')\<rparr>)
         5 empty_state) = Some (Error ''TriggerCodeReview: no token'')
   \<and> fst (AddExtensionImage
         (example_world\<lparr>doRequest := \<lambda>r. Inl (Error ''connection refused'')\<rparr>) 5
         ''icon.png'' empty_state) =
       Return (Inl (Error ''AddExtensionImage: connection refused''))"
  by (simp add: TriggerCodeReview_def UpdateExtensionBinaryInfo_def
      UpdateExtensionBinaryFile_def AddExtensionImage_def example_world_def Errorf_def
      Copied_Opened Let_def)

text \<open>
  C9 fails on the code. \<^verbatim>\<open>UpdateExtensionIcon\<close> on a file that does not decode returns
  the decoding error with the file handle still open; \<^verbatim>\<open>UpdateExtensionBinaryFile\<close> and
  \<^verbatim>\<open>AddExtensionImage\<close> never close the file they open, also when they succeed. Only
  the run of \<^verbatim>\<open>UpdateExtensionIcon\<close> that gets past the image leaves no handle open.
\<close>

theorem file_handle_left_open:
  "UpdateExtensionIcon example_world 5 ''plugin.png'' empty_state =
     (Some (Error ''UpdateExtensionIcon: image: unknown format''),
      empty_state\<lparr>open_files := [''plugin.png'']\<rparr>)
   \<and> fst (UpdateExtensionBinaryFile example_world 5 11 ''ext.zip'' empty_state) = None
   \<and> open_files (snd (UpdateExtensionBinaryFile example_world 5 11 ''ext.zip'' empty_state)) =
       [''ext.zip'']
   \<and> fst (AddExtensionImage (example_world\<lparr>doRequest := \<lambda>r. Inr ''[9]''\<rparr>) 5 ''icon.png''
        empty_state) = Return (Inr (Some example_image))
   \<and> open_files (snd (AddExtensionImage (example_world\<lparr>doRequest := \<lambda>r. Inr ''[9]''\<rparr>) 5
        ''icon.png'' empty_state)) = [''icon.png'']
   \<and> open_files (snd (UpdateExtensionIcon example_world 5 ''icon.png'' empty_state)) = []"
  by (simp add: UpdateExtensionIcon_def UpdateExtensionBinaryFile_def AddExtensionImage_def
      example_world_def empty_state_def Errorf_def Copied_Opened Dx_def Dy_def image_Rect_def
      Let_def)

theorem file_handle_left_open_witness:
  "open_files (snd (UpdateExtensionIcon example_world 5 ''plugin.png'' empty_state)) \<noteq> []
   \<and> open_files (snd (UpdateExtensionBinaryFile example_world 5 11 ''ext.zip'' empty_state)) \<noteq> []"
  using file_handle_left_open by simp

end
